theory Spec2Isabelle
  imports Main "HOL-Library.Sublist"
begin

section \<open>Values of the Go program\<close>

text \<open>
  A Go \<open>error\<close> is built by \<open>errors.New(msg)\<close>; the errors of the libraries (the TOML
  decoder, the file system, the Anilist client) are values of the same type.
\<close>

datatype error = errors_New string

text \<open>
  A call either returns or panics. The only panic the configuration code can raise by
  itself is the nil pointer dereference of \<open>config.Anilist.Client.ID\<close>.
\<close>

datatype 'a go = Return 'a | Panic

text \<open>\<open>type FormatType string\<close> with its five constants.\<close>

type_synonym FormatType = string

definition PDF :: FormatType where "PDF = ''pdf''"
definition CBZ :: FormatType where "CBZ = ''cbz''"
definition Zip :: FormatType where "Zip = ''zip''"
definition Plain :: FormatType where "Plain = ''plain''"
definition Epub :: FormatType where "Epub = ''epub''"

record UI =
  Fullscreen :: bool
  Prompt :: string
  Title :: string
  Placeholder :: string
  Mark :: string
  ChapterNameTemplate :: string

text \<open>
  Modelled from the spec: the declaration of \<open>Source\<close> is not among the source files. The
  spec describes it as a name and an ordered mapping of setting names to string, boolean
  or integer values; the code reads and writes only \<open>Name\<close>.
\<close>

datatype setting = StringValue string | BoolValue bool | IntValue int

record Source =
  Name :: string
  Settings :: "(string \<times> setting) list"

text \<open>
  The code handles \<open>Source\<close> structs through pointers: \<open>MakeSourceScraper(&source)\<close> takes
  the address of a variable, and \<open>scraper.Source\<close> is compared with nil and handed to
  \<open>ValidateSource\<close>. A pointer \<open>*Source\<close> is an address, nil is \<open>None\<close>, and the structs
  live in a store. Go never leaves a pointer dangling, so every address holds a struct;
  \<open>fresh\<close> is the next address that no variable occupies yet.
\<close>

type_synonym addr = nat

record store =
  cells :: "addr \<Rightarrow> Source"
  fresh :: addr

text \<open>
  The declaration of \<open>Scraper\<close> is not among the source files either. The code uses its
  \<open>Source\<close> pointer and the \<open>CacheDir\<close> of its \<open>FilesCollector\<close>; every other field of the
  collector and of the scraper is kept in a component of unknown type.
\<close>

record 'c FilesCollector =
  CacheDir :: string
  CollectorFields :: 'c

record ('c, 's) Scraper =
  Source :: "addr option"
  FilesCollector :: "'c FilesCollector"
  ScraperFields :: 's

text \<open>\<open>AnilistClient\<close>: the two fields \<open>ValidateConfig\<close> reads.\<close>

record AnilistClient =
  ID :: string
  Secret :: string

text \<open>The anonymous struct \<open>Config.Anilist\<close>; \<open>Client\<close> is a pointer and may be nil.\<close>

record Config_Anilist =
  Client :: "AnilistClient option"
  Enabled :: bool
  MarkDownloaded :: bool

record ('c, 's) Config =
  Scrapers :: "('c, 's) Scraper list"
  Format :: FormatType
  UI :: UI
  Anilist :: Config_Anilist
  UseCustomReader :: bool
  CustomReader :: string
  Path :: string
  CacheImages :: bool
  ChapterNameTemplate :: string

text \<open>The local types of \<open>ParseConfig\<close>: \<open>tempConfig\<close> and its anonymous \<open>Anilist\<close> struct.\<close>

record tempConfig_Anilist =
  Enabled :: bool
  ID :: string
  Secret :: string
  MarkDownloaded :: bool

text \<open>
  \<open>Sources\<close> is a Go map. Its entries are listed in the order in which the \<open>range\<close> loop of
  \<open>ParseConfig\<close> visits them; Go does not fix that order, so every arrangement of the entries
  is a possible value. The keys of a map are pairwise distinct.
\<close>

record tempConfig =
  Use :: "string list"
  Format :: string
  UI :: UI
  UseCustomReader :: bool
  CustomReader :: string
  Path :: string
  CacheImages :: bool
  Sources :: "(string \<times> Source) list"
  ChapterNameTemplate :: string
  Anilist :: tempConfig_Anilist

text \<open>The zero value of \<open>tempConfig\<close> (\<open>var tempConf tempConfig\<close>) and of \<open>Config\<close>.\<close>

definition zeroUI :: UI where
  "zeroUI = \<lparr>Fullscreen = False, Prompt = [], Title = [], Placeholder = [], Mark = [],
     UI.ChapterNameTemplate = []\<rparr>"

definition zeroTempConfig :: tempConfig where
  "zeroTempConfig = \<lparr>Use = [], tempConfig.Format = [], tempConfig.UI = zeroUI,
     tempConfig.UseCustomReader = False, tempConfig.CustomReader = [], tempConfig.Path = [],
     tempConfig.CacheImages = False, Sources = [], tempConfig.ChapterNameTemplate = [],
     tempConfig.Anilist = \<lparr>tempConfig_Anilist.Enabled = False, tempConfig_Anilist.ID = [],
       tempConfig_Anilist.Secret = [], tempConfig_Anilist.MarkDownloaded = False\<rparr>\<rparr>"

definition zeroConfig :: "('c, 's) Config" where
  "zeroConfig = \<lparr>Scrapers = [], Config.Format = [], Config.UI = zeroUI,
     Config.Anilist = \<lparr>Client = None, Config_Anilist.Enabled = False,
       Config_Anilist.MarkDownloaded = False\<rparr>,
     Config.UseCustomReader = False, Config.CustomReader = [], Config.Path = [],
     Config.CacheImages = False, Config.ChapterNameTemplate = []\<rparr>"

section \<open>What the configuration code calls but does not define\<close>

text \<open>
  \<open>toml.Unmarshal\<close> is a library. It has three outcomes: the text is not well-formed TOML;
  the text is well-formed, but a value in it does not fit the field of \<open>tempConfig\<close> it is
  for (a number for \<open>format\<close>, an integer out of range); or the document is decoded. In the
  first two it returns an error.
\<close>

datatype toml_result = SyntaxError error | DecodeError error | Decoded tempConfig

text \<open>
  The functions of other files and libraries that the two source files call are the
  fields of an environment: the TOML decoder, the scraper constructor, the Anilist client
  constructor with its two results, the self-check of a source, the file system, and the
  pieces of the "unknown format" message.

  \<open>MakeSourceScraper\<close> receives a pointer and can read the store through it. It is taken to
  return a scraper (not nil) whose collector exists, and not to write to the \<open>Source\<close>
  structs. Whether the scraper keeps the pointer is the constructor's business: the field
  \<open>Source\<close> of its result says so. \<open>ValidateSource\<close> reads the struct its pointer argument
  refers to.
\<close>

record ('c, 's) env =
  toml_Unmarshal :: "string \<Rightarrow> toml_result"
  MakeSourceScraper :: "addr \<Rightarrow> store \<Rightarrow> ('c, 's) Scraper"
  NewAnilistClient :: "string \<Rightarrow> string \<Rightarrow> AnilistClient option \<times> error option"
  ValidateSource :: "Source \<Rightarrow> error option"
  os_UserConfigDir :: "error + string"
  filepath_Join :: "string list \<Rightarrow> string"
  strings_ToLower :: "string \<Rightarrow> string"
  Mangal :: string
  Afero_Exists :: "string \<Rightarrow> bool \<times> error option"
  Afero_ReadFile :: "string \<Rightarrow> error + string"
  accentStyle_Render :: "string \<Rightarrow> string"

text \<open>
  Modelled from the spec: the generic helper \<open>Contains\<close> is not among the source files; the
  spec uses it as membership of a value in a list (a name "listed in Use", a format that
  "is a member of the fixed enumerated set").
\<close>

fun Contains :: "'a list \<Rightarrow> 'a \<Rightarrow> bool" where
  "Contains [] x = False"
| "Contains (y # ys) x = (y = x \<or> Contains ys x)"

text \<open>
  Modelled from the spec: \<open>AvailableFormats\<close> is not among the source files; the spec gives
  the fixed enumerated set pdf, cbz, zip, plain, epub.
\<close>

definition AvailableFormats :: "FormatType list" where
  "AvailableFormats = [PDF, CBZ, Zip, Plain, Epub]"

text \<open>
  Modelled from the spec: the helper \<open>IfElse\<close> is not among the source files; its use
  (\<open>IfElse(tempConf.Format == "", PDF, FormatType(tempConf.Format))\<close>, "empty string becomes
  pdf") is that of a conditional expression.
\<close>

definition IfElse :: "bool \<Rightarrow> 'a \<Rightarrow> 'a \<Rightarrow> 'a" where
  "IfElse b x y = (if b then x else y)"

text \<open>
  \<open>strings.Contains(s, substr)\<close> of the Go standard library: \<open>substr\<close> occurs in \<open>s\<close> as a
  contiguous block, tried at every position from the left.
\<close>

fun strings_Contains :: "string \<Rightarrow> string \<Rightarrow> bool" where
  "strings_Contains [] substr = (substr = [])"
| "strings_Contains (c # cs) substr = (prefix substr (c # cs) \<or> strings_Contains cs substr)"

section \<open>ValidateConfig\<close>

text \<open>
  \<open>ValidateConfig\<close> is applied to a configuration (not to a nil pointer) whose scrapers are
  not nil, in the store that holds the sources of its scrapers. It only reads the store.
\<close>

text \<open>The closure \<open>validateChapterNameTemplate\<close> of \<open>ValidateConfig\<close>.\<close>

definition validateChapterNameTemplate :: "string \<Rightarrow> error option" where
  "validateChapterNameTemplate template =
     (if \<not> strings_Contains template ''%d'' \<and>
         \<not> strings_Contains template ''%s'' \<and>
         \<not> strings_Contains template ''%0d''
      then Some (errors_New
        ''chapter name template should contain at least one %d, %0d or %s placeholder'')
      else None)"

text \<open>
  The Anilist check: \<open>config.Anilist.Client.ID\<close> dereferences the client pointer, which
  panics when the pointer is nil.
\<close>

definition checkAnilist :: "('c, 's) Config \<Rightarrow> error option go" where
  "checkAnilist config =
     (if Config_Anilist.Enabled (Config.Anilist config) then
        (case Client (Config.Anilist config) of
           None \<Rightarrow> Panic
         | Some client \<Rightarrow>
             if AnilistClient.ID client = [] \<or> AnilistClient.Secret client = []
             then Return (Some (errors_New ''anilist is enabled but id or secret is not set''))
             else Return None)
      else Return None)"

text \<open>The message of the format check, as \<open>fmt.Sprintf\<close> builds it.\<close>

definition unknownFormatMessage :: "('c, 's) env \<Rightarrow> FormatType \<Rightarrow> string" where
  "unknownFormatMessage E format =
     ''unknown format '' @ [CHR 0x27] @ format @ [CHR 0x27, CHR 0x0A] @ ''type '' @
     accentStyle_Render E (strings_ToLower E (Mangal E) @ '' formats'') @
     '' to show available formats''"

text \<open>The final loop over \<open>config.Scrapers\<close>.\<close>

fun validateScrapers ::
  "('c, 's) env \<Rightarrow> store \<Rightarrow> ('c, 's) Scraper list \<Rightarrow> error option" where
  "validateScrapers E h [] = None"
| "validateScrapers E h (scraper # rest) =
     (case Source scraper of
        None \<Rightarrow> Some (errors_New ''internal error: scraper source is nil'')
      | Some source \<Rightarrow>
          (case ValidateSource E (cells h source) of
             Some err \<Rightarrow> Some err
           | None \<Rightarrow> validateScrapers E h rest))"

definition ValidateConfig ::
  "('c, 's) env \<Rightarrow> store \<Rightarrow> ('c, 's) Config \<Rightarrow> error option go" where
  "ValidateConfig E h config =
     (if length (Scrapers config) = 0 then Return (Some (errors_New ''no manga sources listed''))
      else
        (case validateChapterNameTemplate (Config.ChapterNameTemplate config) of
           Some err \<Rightarrow> Return (Some err)
         | None \<Rightarrow>
        (case validateChapterNameTemplate (UI.ChapterNameTemplate (Config.UI config)) of
           Some err \<Rightarrow> Return (Some err)
         | None \<Rightarrow>
        (case checkAnilist config of
           Panic \<Rightarrow> Panic
         | Return (Some err) \<Rightarrow> Return (Some err)
         | Return None \<Rightarrow>
             if Config.UseCustomReader config \<and> Config.CustomReader config = []
             then Return (Some (errors_New
               ''use_custom_reader is set to true but reader isn't specified''))
             else if \<not> Contains AvailableFormats (Config.Format config)
             then Return (Some (errors_New (unknownFormatMessage E (Config.Format config))))
             else Return (validateScrapers E h (Scrapers config))))))"

section \<open>The Default Document\<close>

text \<open>
  \<open>DefaultConfigBytes\<close>: the embedded TOML text, line by line, every line closed by a line
  feed. The selected-chapter mark is a character outside ASCII and appears as its three
  UTF-8 bytes.
\<close>

definition DefaultConfigBytes :: string where
  \<open>DefaultConfigBytes = concat (map (\<lambda>line. line @ [CHR 0x0A])
    [''# Which sources to use. You can use several sources, it won't affect perfomance'',
     ''use = ['manganelo']'',
     [],
     ''# Type "mangal formats" to show more information about formats'',
     ''format = "pdf"'',
     [],
     ''# If false, then OS default reader will be used'',
     ''use_custom_reader = false'',
     ''custom_reader = "zathura"'',
     [],
     ''# Custom download path, can be either relative (to the current directory) or absolute'',
     ''download_path = '.'' @ [CHR 0x27],
     [],
     ''# How chapters should be named when downloaded'',
     ''# Use %d to specify chapter number and %s to specify chapter title'',
     ''# If you want to pad chapter number with zeros for natural sorting (e.g. 0001, 0123) use %0d instead of %d'',
     ''chapter_name_template = "[%0d] %s"'',
     [],
     ''# Add images to cache'',
     ''# If set to true mangal could crash when trying to redownload something quickly'',
     ''# Usually happens on slow machines'',
     ''cache_images = false'',
     [],
     ''[anilist]'',
     ''# Enable Anilist integration (BETA)'',
     ''# See https://github.com/metafates/mangal/wiki/Anilist-Integration for more information'',
     ''enabled = false'',
     [],
     ''# Anilist client ID'',
     ''id = ""'',
     [],
     ''# Anilist client secret'',
     ''secret = ""'',
     [],
     ''# Will mark downloaded chapters as read on Anilist'',
     ''mark_downloaded = false'',
     [],
     ''[ui]'',
     ''# How to display chapters in TUI mode'',
     ''# Use %d to specify chapter number and %s to specify chapter title'',
     ''chapter_name_template = "[%d] %s"'',
     [],
     ''# Fullscreen mode '',
     ''fullscreen = true'',
     [],
     ''# Input prompt symbol'',
     ''prompt = ">"'',
     [],
     ''# Input placeholder'',
     ''placeholder = "What shall we look for?"'',
     [],
     ''# Selected chapter mark'',
     ''mark = "'' @ [CHR 0xE2, CHR 0x96, CHR 0xBC] @ ''"'',
     [],
     ''# Search window title'',
     ''title = "Mangal"'',
     [],
     ''[sources]'',
     ''[sources.manganelo]'',
     ''# Base url'',
     ''base = 'https://m.manganelo.com'' @ [CHR 0x27],
     [],
     ''# Chapters Base url'',
     ''chapters_base = 'https://chap.manganelo.com/'' @ [CHR 0x27],
     [],
     ''# Search endpoint. Put %s where the query should be'',
     ''search = 'https://m.manganelo.com/search/story/%s'' @ [CHR 0x27],
     [],
     ''# Selector of entry anchor (<a></a>) on search page'',
     ''manga_anchor = '.search-story-item a.item-title'' @ [CHR 0x27],
     [],
     ''# Selector of entry title on search page'',
     ''manga_title = '.search-story-item a.item-title'' @ [CHR 0x27],
     [],
     ''# Manga chapters anchors selector'',
     ''chapter_anchor = 'li.a-h a.chapter-name'' @ [CHR 0x27],
     [],
     ''# Manga chapters titles selector'',
     ''chapter_title = 'li.a-h a.chapter-name'' @ [CHR 0x27],
     [],
     ''# Reader page images selector'',
     ''reader_page = '.container-chapter-reader img'' @ [CHR 0x27],
     [],
     ''# Random delay between requests'',
     ''random_delay_ms = 500 # ms'',
     [],
     ''# Are chapters listed in reversed order on that source?'',
     ''# reversed order -> from newest chapter to oldest'',
     ''reversed_chapters_order = true'',
     [],
     ''# With what character should the whitespace in query be replaced?'',
     ''whitespace_escape = "_"''])\<close>

text \<open>
  The document that this text denotes, key by key: what a TOML decoder stores into a zero
  \<open>tempConfig\<close> when it reads \<open>DefaultConfigBytes\<close>. The decoder is a library, so the
  link between the text and this value is a hypothesis on \<open>toml_Unmarshal\<close> wherever a
  theorem needs it.
\<close>

definition DefaultDocument :: tempConfig where
  "DefaultDocument = \<lparr>
     Use = [''manganelo''],
     tempConfig.Format = ''pdf'',
     tempConfig.UI = \<lparr>Fullscreen = True, Prompt = ''>'', Title = ''Mangal'',
       Placeholder = ''What shall we look for?'', Mark = [CHR 0xE2, CHR 0x96, CHR 0xBC],
       UI.ChapterNameTemplate = ''[%d] %s''\<rparr>,
     tempConfig.UseCustomReader = False,
     tempConfig.CustomReader = ''zathura'',
     tempConfig.Path = ''.'',
     tempConfig.CacheImages = False,
     Sources = [(''manganelo'', \<lparr>Name = [], Settings = [
       (''base'', StringValue ''https://m.manganelo.com''),
       (''chapters_base'', StringValue ''https://chap.manganelo.com/''),
       (''search'', StringValue ''https://m.manganelo.com/search/story/%s''),
       (''manga_anchor'', StringValue ''.search-story-item a.item-title''),
       (''manga_title'', StringValue ''.search-story-item a.item-title''),
       (''chapter_anchor'', StringValue ''li.a-h a.chapter-name''),
       (''chapter_title'', StringValue ''li.a-h a.chapter-name''),
       (''reader_page'', StringValue ''.container-chapter-reader img''),
       (''random_delay_ms'', IntValue 500),
       (''reversed_chapters_order'', BoolValue True),
       (''whitespace_escape'', StringValue ''_'')]\<rparr>)],
     tempConfig.ChapterNameTemplate = ''[%0d] %s'',
     tempConfig.Anilist = \<lparr>tempConfig_Anilist.Enabled = False, tempConfig_Anilist.ID = [],
       tempConfig_Anilist.Secret = [], tempConfig_Anilist.MarkDownloaded = False\<rparr>\<rparr>"

section \<open>ParseConfig\<close>

text \<open>
  The loop \<open>for sourceName, source := range tempConf.Sources\<close>. The language of this code
  (generics, before the per-iteration loop variables of Go 1.22) has one variable \<open>source\<close>
  for the whole loop; its address is taken, so it lives in the store, at \<open>variable\<close>. Every
  iteration first assigns the visited entry to it, also an iteration that goes on to
  \<open>continue\<close>. \<open>cacheImages\<close> is \<open>conf.CacheImages\<close>, \<open>use\<close> is \<open>tempConf.Use\<close>, and the last
  argument is the store with \<open>conf.Scrapers\<close> as built so far.
\<close>

fun rangeSources ::
  "('c, 's) env \<Rightarrow> bool \<Rightarrow> string list \<Rightarrow> addr \<Rightarrow> (string \<times> Source) list \<Rightarrow>
   store \<times> ('c, 's) Scraper list \<Rightarrow> store \<times> ('c, 's) Scraper list" where
  "rangeSources E cacheImages use variable [] (h, scrapers) = (h, scrapers)"
| "rangeSources E cacheImages use variable ((sourceName, entry) # rest) (h, scrapers) =
     (let h = h\<lparr>cells := (cells h)(variable := entry)\<rparr>
      in if \<not> Contains use sourceName
         then rangeSources E cacheImages use variable rest (h, scrapers)
         else
           let h = h\<lparr>cells := (cells h)(variable := (cells h variable)\<lparr>Name := sourceName\<rparr>)\<rparr>;
               scraper = MakeSourceScraper E variable h;
               scraper = (if \<not> cacheImages
                          then scraper\<lparr>FilesCollector :=
                                 (FilesCollector scraper)\<lparr>CacheDir := []\<rparr>\<rparr>
                          else scraper)
           in rangeSources E cacheImages use variable rest (h, scrapers @ [scraper]))"

text \<open>
  \<open>ParseConfig\<close> returns the pair (\<open>*Config\<close>, \<open>error\<close>), a nil pointer and a nil error
  being \<open>None\<close>, and leaves a store behind. The loop variable is allocated when the loop is
  entered.
\<close>

definition ParseConfig ::
  "('c, 's) env \<Rightarrow> store \<Rightarrow> string \<Rightarrow> (('c, 's) Config option \<times> error option) \<times> store" where
  "ParseConfig E h configString =
     (case toml_Unmarshal E configString of
        SyntaxError err \<Rightarrow> ((None, Some err), h)
      | DecodeError err \<Rightarrow> ((None, Some err), h)
      | Decoded tempConf \<Rightarrow>
          let conf = zeroConfig\<lparr>Config.CacheImages := tempConfig.CacheImages tempConf\<rparr>;
              variable = fresh h;
              h = h\<lparr>fresh := Suc variable\<rparr>;
              (h, scrapers) = rangeSources E (Config.CacheImages conf) (Use tempConf) variable
                                (Sources tempConf) (h, Scrapers conf);
              conf = conf\<lparr>Scrapers := scrapers\<rparr>;
              tempConf = (if UI.ChapterNameTemplate (tempConfig.UI tempConf) = []
                          then tempConf\<lparr>tempConfig.UI :=
                                 (tempConfig.UI tempConf)\<lparr>UI.ChapterNameTemplate := ''[%d] %s''\<rparr>\<rparr>
                          else tempConf);
              conf = conf\<lparr>Config.UI := tempConfig.UI tempConf\<rparr>;
              conf = conf\<lparr>Config.Path := tempConfig.Path tempConf\<rparr>;
              conf = conf\<lparr>Config.Format :=
                       IfElse (tempConfig.Format tempConf = []) PDF (tempConfig.Format tempConf)\<rparr>;
              conf = conf\<lparr>Config.UseCustomReader := tempConfig.UseCustomReader tempConf\<rparr>;
              conf = conf\<lparr>Config.CustomReader := tempConfig.CustomReader tempConf\<rparr>;
              template = tempConfig.ChapterNameTemplate tempConf;
              conf = (if template \<noteq> []
                      then conf\<lparr>Config.ChapterNameTemplate := template\<rparr>
                      else conf\<lparr>Config.ChapterNameTemplate := ''[%0d] %s''\<rparr>)
          in if tempConfig_Anilist.Enabled (tempConfig.Anilist tempConf) then
               (case NewAnilistClient E (tempConfig_Anilist.ID (tempConfig.Anilist tempConf))
                       (tempConfig_Anilist.Secret (tempConfig.Anilist tempConf)) of
                  (client, err) \<Rightarrow>
                    let conf = conf\<lparr>Config.Anilist := (Config.Anilist conf)\<lparr>Client := client\<rparr>\<rparr>
                    in (case err of
                          Some e \<Rightarrow> ((None, Some e), h)
                        | None \<Rightarrow>
                            let conf = conf\<lparr>Config.Anilist :=
                                         (Config.Anilist conf)\<lparr>Config_Anilist.Enabled := True\<rparr>\<rparr>;
                                conf = conf\<lparr>Config.Anilist :=
                                         (Config.Anilist conf)\<lparr>Config_Anilist.MarkDownloaded :=
                                           tempConfig_Anilist.MarkDownloaded
                                             (tempConfig.Anilist tempConf)\<rparr>\<rparr>
                            in ((Some conf, None), h)))
             else ((Some conf, None), h))"

text \<open>\<open>DefaultConfig\<close> drops the error of \<open>ParseConfig\<close>.\<close>

definition DefaultConfig ::
  "('c, 's) env \<Rightarrow> store \<Rightarrow> ('c, 's) Config option \<times> store" where
  "DefaultConfig E h =
     (case ParseConfig E h DefaultConfigBytes of ((conf, err), h') \<Rightarrow> (conf, h'))"

section \<open>GetConfig\<close>

definition GetConfigPath :: "('c, 's) env \<Rightarrow> error + string" where
  "GetConfigPath E =
     (case os_UserConfigDir E of
        Inl err \<Rightarrow> Inl err
      | Inr configDir \<Rightarrow>
          Inr (filepath_Join E [configDir, strings_ToLower E (Mangal E), ''config.toml'']))"

text \<open>
  When \<open>ParseConfig\<close> fails, \<open>DefaultConfig\<close> runs in the store that the failed call left.
\<close>

definition GetConfig ::
  "('c, 's) env \<Rightarrow> store \<Rightarrow> string \<Rightarrow> ('c, 's) Config option \<times> store" where
  "GetConfig E h path =
     (case (if path = [] then GetConfigPath E else Inr path) of
        Inl err \<Rightarrow> DefaultConfig E h
      | Inr configPath \<Rightarrow>
          (case Afero_Exists E configPath of
             (configExists, err) \<Rightarrow>
               if err \<noteq> None \<or> \<not> configExists then DefaultConfig E h
               else
                 (case Afero_ReadFile E configPath of
                    Inl err \<Rightarrow> DefaultConfig E h
                  | Inr contents \<Rightarrow>
                      (case ParseConfig E h contents of
                         ((config, err), h') \<Rightarrow>
                           if err \<noteq> None then DefaultConfig E h' else (config, h')))))"

section \<open>The checks as the specification lists them\<close>

text \<open>
  The specification describes validation as a list of checks run in order, the first
  violation being the result. \<open>first_violation\<close> is that reading of a list of check
  results.
\<close>

fun first_violation :: "error option list \<Rightarrow> error option" where
  "first_violation [] = None"
| "first_violation (None # checks) = first_violation checks"
| "first_violation (Some err # checks) = Some err"

text \<open>
  A template has a placeholder when one of the tokens \<open>%d\<close>, \<open>%0d\<close>, \<open>%s\<close> occurs in it.
\<close>

definition has_placeholder :: "string \<Rightarrow> bool" where
  "has_placeholder template \<longleftrightarrow>
     strings_Contains template ''%d'' \<or> strings_Contains template ''%0d'' \<or>
     strings_Contains template ''%s''"

text \<open>
  The identifier and the secret of the remote account are fields of the client; a
  configuration without a client has neither, which counts as empty.
\<close>

definition client_id :: "('c, 's) Config \<Rightarrow> string" where
  "client_id c = (case Client (Config.Anilist c) of None \<Rightarrow> [] | Some cl \<Rightarrow> AnilistClient.ID cl)"

definition client_secret :: "('c, 's) Config \<Rightarrow> string" where
  "client_secret c =
     (case Client (Config.Anilist c) of None \<Rightarrow> [] | Some cl \<Rightarrow> AnilistClient.Secret cl)"

text \<open>Checks 1 to 6 of the specification, in its order, each with its error.\<close>

definition ordered_checks :: "('c, 's) env \<Rightarrow> ('c, 's) Config \<Rightarrow> error option list" where
  "ordered_checks E c =
     [if Scrapers c = [] then Some (errors_New ''no manga sources listed'') else None,
      if has_placeholder (Config.ChapterNameTemplate c) then None
      else Some (errors_New
        ''chapter name template should contain at least one %d, %0d or %s placeholder''),
      if has_placeholder (UI.ChapterNameTemplate (Config.UI c)) then None
      else Some (errors_New
        ''chapter name template should contain at least one %d, %0d or %s placeholder''),
      if Config_Anilist.Enabled (Config.Anilist c) \<and> (client_id c = [] \<or> client_secret c = [])
      then Some (errors_New ''anilist is enabled but id or secret is not set'') else None,
      if Config.UseCustomReader c \<and> Config.CustomReader c = []
      then Some (errors_New ''use_custom_reader is set to true but reader isn't specified'')
      else None,
      if Config.Format c \<in> {''pdf'', ''cbz'', ''zip'', ''plain'', ''epub''} then None
      else Some (errors_New (unknownFormatMessage E (Config.Format c)))]"

text \<open>
  Check 7 as the specification words it: the self-check of each activated source adapter,
  its error surfaced verbatim. A scraper that holds no source has no adapter to check.
\<close>

definition adapter_self_check ::
  "('c, 's) env \<Rightarrow> store \<Rightarrow> ('c, 's) Scraper \<Rightarrow> error option" where
  "adapter_self_check E h scraper =
     (case Source scraper of None \<Rightarrow> None | Some source \<Rightarrow> ValidateSource E (cells h source))"

definition spec_validate :: "('c, 's) env \<Rightarrow> store \<Rightarrow> ('c, 's) Config \<Rightarrow> error option" where
  "spec_validate E h c =
     first_violation (ordered_checks E c @ map (adapter_self_check E h) (Scrapers c))"

text \<open>
  Check 7 with the guard of the code in front of the self-check: a scraper without a
  source is an error of its own.
\<close>

definition guarded_self_check ::
  "('c, 's) env \<Rightarrow> store \<Rightarrow> ('c, 's) Scraper \<Rightarrow> error option" where
  "guarded_self_check E h scraper =
     (case Source scraper of
        None \<Rightarrow> Some (errors_New ''internal error: scraper source is nil'')
      | Some source \<Rightarrow> ValidateSource E (cells h source))"

section \<open>The resolved sources as statements speak of them\<close>

text \<open>
  The order of the resolved sources as the specification states it: the enabled names in
  the order of the \<open>use\<close> list, a name without a section dropped.
\<close>

definition spec_resolved_names :: "tempConfig \<Rightarrow> string list" where
  "spec_resolved_names t = filter (\<lambda>name. name \<in> fst ` set (Sources t)) (Use t)"

text \<open>
  The scraper built for one section: what the constructor returns when the variable at
  \<open>variable\<close> holds that section under its name, with the cache directory emptied unless
  images are cached.
\<close>

definition built_scraper ::
  "('c, 's) env \<Rightarrow> bool \<Rightarrow> addr \<Rightarrow> store \<Rightarrow> string \<times> Source \<Rightarrow> ('c, 's) Scraper" where
  "built_scraper E cacheImages variable h section =
     (let made = MakeSourceScraper E variable
                   (h\<lparr>cells := (cells h)(variable := (snd section)\<lparr>Name := fst section\<rparr>)\<rparr>)
      in if cacheImages then made
         else made\<lparr>FilesCollector := (FilesCollector made)\<lparr>CacheDir := []\<rparr>\<rparr>)"

text \<open>
  What a variable holds after a loop over the sections that assigns each visited section
  to it and sets the name of those listed in \<open>use\<close>.
\<close>

fun range_variable_after :: "string list \<Rightarrow> (string \<times> Source) list \<Rightarrow> Source \<Rightarrow> Source" where
  "range_variable_after use [] held = held"
| "range_variable_after use (section # rest) held =
     range_variable_after use rest
       (if fst section \<in> set use then (snd section)\<lparr>Name := fst section\<rparr> else snd section)"

text \<open>
  The store after \<open>ParseConfig\<close> has decoded the document \<open>t\<close>: one more variable, holding
  what the loop left in it.
\<close>

definition store_after :: "store \<Rightarrow> tempConfig \<Rightarrow> store" where
  "store_after h t =
     \<lparr>cells = (cells h)(fresh h := range_variable_after (Use t) (Sources t) (cells h (fresh h))),
      fresh = Suc (fresh h)\<rparr>"

section \<open>A concrete environment\<close>

text \<open>
  The closed statements below run the code in one small world: a decoder that knows the
  embedded default text and five other texts and rejects the rest; a scraper constructor
  that keeps the pointer it is given and names its cache directory after the source as it
  reads it at that moment; a client constructor that refuses an empty identifier; a
  self-check that accepts every source; no user configuration directory; three files; and
  a store in which nothing is allocated yet.
\<close>

definition empty_store :: store where
  "empty_store = \<lparr>cells = (\<lambda>a. \<lparr>Name = [], Settings = []\<rparr>), fresh = 0\<rparr>"

definition text_use_only :: string where
  "text_use_only = ''use = ['manganelo']''"

definition document_use_only :: tempConfig where
  "document_use_only = zeroTempConfig\<lparr>Use := [''manganelo'']\<rparr>"

definition text_b_a :: string where
  "text_b_a = concat (map (\<lambda>line. line @ [CHR 0x0A])
     [''use = ['b', 'a']'', ''cache_images = true'',
      ''[sources.a]'', ''base = 'https://a.example'' @ [CHR 0x27],
      ''[sources.b]'', ''base = 'https://b.example'' @ [CHR 0x27],
      ''[sources.c]'', ''base = 'https://c.example'' @ [CHR 0x27]])"

text \<open>
  The three sections of \<open>text_b_a\<close> are the entries of a Go map, here visited in the order
  c, a, b.
\<close>

definition document_b_a :: tempConfig where
  "document_b_a = zeroTempConfig\<lparr>Use := [''b'', ''a''], tempConfig.CacheImages := True,
     Sources := [
       (''c'', \<lparr>Name = [], Settings = [(''base'', StringValue ''https://c.example'')]\<rparr>),
       (''a'', \<lparr>Name = [], Settings = [(''base'', StringValue ''https://a.example'')]\<rparr>),
       (''b'', \<lparr>Name = [], Settings = [(''base'', StringValue ''https://b.example'')]\<rparr>)]\<rparr>"

definition text_anilist :: string where
  "text_anilist = concat (map (\<lambda>line. line @ [CHR 0x0A]) [''[anilist]'', ''enabled = true''])"

definition document_anilist :: tempConfig where
  "document_anilist = zeroTempConfig\<lparr>tempConfig.Anilist :=
     \<lparr>tempConfig_Anilist.Enabled = True, tempConfig_Anilist.ID = [],
      tempConfig_Anilist.Secret = [], tempConfig_Anilist.MarkDownloaded = False\<rparr>\<rparr>"

definition text_mark_downloaded :: string where
  "text_mark_downloaded =
     concat (map (\<lambda>line. line @ [CHR 0x0A]) [''[anilist]'', ''mark_downloaded = true''])"

definition document_mark_downloaded :: tempConfig where
  "document_mark_downloaded = zeroTempConfig\<lparr>tempConfig.Anilist :=
     \<lparr>tempConfig_Anilist.Enabled = False, tempConfig_Anilist.ID = [],
      tempConfig_Anilist.Secret = [], tempConfig_Anilist.MarkDownloaded = True\<rparr>\<rparr>"

text \<open>A well-formed text with a number where \<open>tempConfig.Format\<close> is a string.\<close>

definition text_format_number :: string where
  "text_format_number = ''format = 5''"

definition sample_Unmarshal :: "string \<Rightarrow> toml_result" where
  "sample_Unmarshal configString =
     (if configString = DefaultConfigBytes then Decoded DefaultDocument
      else if configString = text_use_only then Decoded document_use_only
      else if configString = text_b_a then Decoded document_b_a
      else if configString = text_anilist then Decoded document_anilist
      else if configString = text_mark_downloaded then Decoded document_mark_downloaded
      else if configString = text_format_number
      then DecodeError (errors_New
        ''toml: cannot decode TOML integer into struct field main.tempConfig.Format of type string'')
      else SyntaxError (errors_New ''toml: invalid document''))"

definition sample_MakeSourceScraper :: "addr \<Rightarrow> store \<Rightarrow> (unit, unit) Scraper" where
  "sample_MakeSourceScraper source h =
     \<lparr>Source = Some source,
      FilesCollector = \<lparr>CacheDir = ''/cache/'' @ Name (cells h source), CollectorFields = ()\<rparr>,
      ScraperFields = ()\<rparr>"

definition sample_NewAnilistClient ::
  "string \<Rightarrow> string \<Rightarrow> AnilistClient option \<times> error option" where
  "sample_NewAnilistClient ident secret =
     (if ident = [] then (None, Some (errors_New ''anilist: no client id''))
      else (Some \<lparr>AnilistClient.ID = ident, AnilistClient.Secret = secret\<rparr>, None))"

definition sample_env :: "(unit, unit) env" where
  "sample_env = \<lparr>
     toml_Unmarshal = sample_Unmarshal,
     MakeSourceScraper = sample_MakeSourceScraper,
     NewAnilistClient = sample_NewAnilistClient,
     ValidateSource = (\<lambda>source. None),
     os_UserConfigDir = Inl (errors_New ''neither $XDG_CONFIG_HOME nor $HOME are defined''),
     filepath_Join = concat,
     strings_ToLower = (\<lambda>s. s),
     Mangal = ''mangal'',
     Afero_Exists = (\<lambda>path. (path \<in> {''/good.toml'', ''/broken.toml'', ''/locked.toml''}, None)),
     Afero_ReadFile = (\<lambda>path.
       if path = ''/good.toml'' then Inr text_use_only
       else if path = ''/broken.toml'' then Inr ''use = [''
       else Inl (errors_New ''permission denied'')),
     accentStyle_Render = (\<lambda>s. s)\<rparr>"

text \<open>
  A store with one source, and three configurations over it: one that passes every check,
  the same with a scraper whose source pointer is nil, and the same with the Anilist flag
  set but no client.
\<close>

definition sample_store :: store where
  "sample_store = \<lparr>cells = (\<lambda>a. \<lparr>Name = ''manganelo'', Settings = []\<rparr>), fresh = 1\<rparr>"

definition sample_config :: "(unit, unit) Config" where
  "sample_config = \<lparr>
     Scrapers = [\<lparr>Source = Some 0,
       FilesCollector = \<lparr>CacheDir = [], CollectorFields = ()\<rparr>, ScraperFields = ()\<rparr>],
     Config.Format = ''pdf'',
     Config.UI = zeroUI\<lparr>UI.ChapterNameTemplate := ''[%d] %s''\<rparr>,
     Config.Anilist = \<lparr>Client = None, Config_Anilist.Enabled = False,
       Config_Anilist.MarkDownloaded = False\<rparr>,
     Config.UseCustomReader = False,
     Config.CustomReader = ''zathura'',
     Config.Path = ''.'',
     Config.CacheImages = False,
     Config.ChapterNameTemplate = ''[%0d] %s''\<rparr>"

definition config_nil_source :: "(unit, unit) Config" where
  "config_nil_source = sample_config\<lparr>Scrapers :=
     [\<lparr>Source = None, FilesCollector = \<lparr>CacheDir = [], CollectorFields = ()\<rparr>,
       ScraperFields = ()\<rparr>]\<rparr>"

definition config_no_client :: "(unit, unit) Config" where
  "config_no_client = sample_config\<lparr>Config.Anilist :=
     \<lparr>Client = None, Config_Anilist.Enabled = True, Config_Anilist.MarkDownloaded = False\<rparr>\<rparr>"

text \<open>
  The store at the moment the loop over \<open>document_b_a\<close>, started in \<open>empty_store\<close>, calls the
  constructor for section a: the loop variable, at address 0, holds section a under its
  name.
\<close>

definition store_building_a :: store where
  "store_building_a = \<lparr>cells = (cells empty_store)
       (0 := \<lparr>Name = ''a'', Settings = [(''base'', StringValue ''https://a.example'')]\<rparr>),
     fresh = 1\<rparr>"

section \<open>Facts about the helpers\<close>



lemma Contains_set: "Contains xs x \<longleftrightarrow> x \<in> set xs"
  by (induction xs) auto

lemma validateScrapers_first_violation:
  "validateScrapers E h scrapers = first_violation (map (guarded_self_check E h) scrapers)"
  by (induction scrapers) (auto simp: guarded_self_check_def split: option.splits)


lemma Contains_AvailableFormats:
  "Contains AvailableFormats f \<longleftrightarrow> f \<in> {''pdf'', ''cbz'', ''zip'', ''plain'', ''epub''}"
  by (auto simp: AvailableFormats_def PDF_def CBZ_def Zip_def Plain_def Epub_def)

section \<open>The chapter-name template check\<close>



section \<open>The order of the checks\<close>

text \<open>
  Claim C4, as stated, at a configuration in which the only scraper has no source: every
  one of the seven listed checks passes there (\<open>spec_validate\<close> finds no violation), and
  \<open>ValidateConfig\<close> returns an error of its own, which no adapter produced.
\<close>

theorem ValidateConfig_nil_source_counterexample:
  "ValidateConfig sample_env sample_store config_nil_source =
     Return (Some (errors_New ''internal error: scraper source is nil'')) \<and>
   spec_validate sample_env sample_store config_nil_source = None"
  by (simp add: ValidateConfig_def spec_validate_def config_nil_source_def sample_config_def
      sample_env_def ordered_checks_def has_placeholder_def validateChapterNameTemplate_def
      checkAnilist_def client_id_def client_secret_def adapter_self_check_def
      Contains_AvailableFormats zeroUI_def)

text \<open>
  Claim C4, amended. For every configuration whose client exists whenever the Anilist flag
  is set, \<open>ValidateConfig\<close> returns the first violation of the checks in the listed order:
  scrapers non-empty, global template, UI template, Anilist identifier and secret, custom
  reader, format, and then for each scraper in turn the guard "the scraper has a source"
  followed by the self-check of that source, whose error is returned as it is. With no
  violation it returns no error.
\<close>

theorem ValidateConfig_first_violation:
  assumes "Config_Anilist.Enabled (Config.Anilist c) \<longrightarrow> Client (Config.Anilist c) \<noteq> None"
  shows "ValidateConfig E h c =
     Return (first_violation (ordered_checks E c @ map (guarded_self_check E h) (Scrapers c)))"
proof (cases "Client (Config.Anilist c)")
  case None
  with assms have off: "\<not> Config_Anilist.Enabled (Config.Anilist c)" by simp
  then show ?thesis
    by (simp add: ValidateConfig_def ordered_checks_def checkAnilist_def
        validateChapterNameTemplate_def has_placeholder_def
        validateScrapers_first_violation Contains_AvailableFormats)
next
  case (Some cl)
  then show ?thesis
    by (simp add: ValidateConfig_def ordered_checks_def checkAnilist_def client_id_def
        client_secret_def validateChapterNameTemplate_def has_placeholder_def
        validateScrapers_first_violation Contains_AvailableFormats)
qed

theorem ValidateConfig_first_violation_witness:
  "ValidateConfig sample_env sample_store
     (sample_config\<lparr>Config.UseCustomReader := True, Config.CustomReader := [],
        Config.Format := ''djvu''\<rparr>) =
   Return (Some (errors_New ''use_custom_reader is set to true but reader isn't specified'')) \<and>
   ValidateConfig sample_env sample_store (sample_config\<lparr>Config.Format := ''djvu''\<rparr>) =
   Return (Some (errors_New (''unknown format '' @ [CHR 0x27] @ ''djvu'' @ [CHR 0x27, CHR 0x0A] @
     ''type mangal formats to show available formats''))) \<and>
   ValidateConfig sample_env sample_store sample_config = Return None"
proof -
  have on: "Config_Anilist.Enabled (Config.Anilist c) \<longrightarrow> Client (Config.Anilist c) \<noteq> None"
    if "Config.Anilist c = Config.Anilist sample_config" for c :: "(unit, unit) Config"
    using that by (simp add: sample_config_def)
  show ?thesis
    using ValidateConfig_first_violation [OF on, of "sample_config\<lparr>Config.UseCustomReader := True,
        Config.CustomReader := [], Config.Format := ''djvu''\<rparr>" sample_env sample_store]
      ValidateConfig_first_violation [OF on, of "sample_config\<lparr>Config.Format := ''djvu''\<rparr>"
        sample_env sample_store]
      ValidateConfig_first_violation [OF on, of sample_config sample_env sample_store]
    by (simp add: sample_config_def sample_env_def ordered_checks_def has_placeholder_def
        client_id_def client_secret_def guarded_self_check_def
        unknownFormatMessage_def zeroUI_def)
qed

section \<open>Totality of validation\<close>

text \<open>
  Claim C5 says that \<open>ValidateConfig\<close> never panics, also on a configuration with the
  Anilist flag set and no client. On such a configuration that passes the first three
  checks the code dereferences the nil client pointer: the call panics.
\<close>

theorem ValidateConfig_panics_without_client:
  "ValidateConfig sample_env sample_store config_no_client = Panic"
  by (simp add: ValidateConfig_def config_no_client_def sample_config_def
      validateChapterNameTemplate_def checkAnilist_def zeroUI_def)

section \<open>The Anilist gate\<close>

text \<open>
  With a client in place the gate works as described: a set flag with an empty identifier
  or secret gives the Anilist error, and with the flag off the result does not depend on
  the client and is never a panic.
\<close>

lemma anilist_gate_with_client:
  assumes "Scrapers c \<noteq> []"
    and "validateChapterNameTemplate (Config.ChapterNameTemplate c) = None"
    and "validateChapterNameTemplate (UI.ChapterNameTemplate (Config.UI c)) = None"
  shows "(Config_Anilist.Enabled (Config.Anilist c) \<and> Client (Config.Anilist c) = Some cl \<and>
          (AnilistClient.ID cl = [] \<or> AnilistClient.Secret cl = []) \<longrightarrow>
            ValidateConfig E h c =
              Return (Some (errors_New ''anilist is enabled but id or secret is not set''))) \<and>
         (\<not> Config_Anilist.Enabled (Config.Anilist c) \<longrightarrow>
            ValidateConfig E h c \<noteq> Panic \<and>
            ValidateConfig E h (c\<lparr>Config.Anilist := (Config.Anilist c)\<lparr>Client := other\<rparr>\<rparr>) =
              ValidateConfig E h c)"
  using assms
  by (simp add: ValidateConfig_def checkAnilist_def)

text \<open>
  Claim C8 says that a configuration which passes the earlier checks, has the Anilist flag
  set and an empty identifier or secret fails with the Anilist error. \<open>config_no_client\<close>
  is such a configuration: it has a scraper, both templates are accepted, the flag is set,
  and without a client its identifier and secret are empty. The code does not return the
  Anilist error there (the call panics on the nil client).
\<close>

theorem anilist_gate_panics_without_client:
  "Scrapers config_no_client \<noteq> [] \<and>
   validateChapterNameTemplate (Config.ChapterNameTemplate config_no_client) = None \<and>
   validateChapterNameTemplate (UI.ChapterNameTemplate (Config.UI config_no_client)) = None \<and>
   Config_Anilist.Enabled (Config.Anilist config_no_client) \<and>
   client_id config_no_client = [] \<and>
   client_secret config_no_client = [] \<and>
   ValidateConfig sample_env sample_store config_no_client \<noteq>
     Return (Some (errors_New ''anilist is enabled but id or secret is not set''))"
  by (simp add: ValidateConfig_def config_no_client_def sample_config_def
      validateChapterNameTemplate_def checkAnilist_def zeroUI_def client_id_def
      client_secret_def)

section \<open>Facts about ParseConfig\<close>

text \<open>
  The loop appends one scraper for every visited section that is listed in \<open>Use\<close> and
  leaves the last visited section in its variable; the result of \<open>ParseConfig\<close> in closed
  form for a document with the Anilist flag off and on; and the values of \<open>ParseConfig\<close> in
  the concrete environment.
\<close>

lemma built_scraper_overwrites:
  "built_scraper E ci a (h\<lparr>cells := (cells h)(a := x)\<rparr>) = built_scraper E ci a h"
  by (rule ext) (simp add: built_scraper_def)

lemma rangeSources_eq:
  "rangeSources E ci use a entries (h, acc) =
     (h\<lparr>cells := (cells h)(a := range_variable_after use entries (cells h a))\<rparr>,
      acc @ map (built_scraper E ci a h) (filter (\<lambda>entry. fst entry \<in> set use) entries))"
proof (induction entries arbitrary: h acc)
  case Nil
  show ?case by simp
next
  case (Cons entry rest)
  obtain n s where entry: "entry = (n, s)" by (cases entry)
  let ?h1 = "h\<lparr>cells := (cells h)(a := s)\<rparr>"
  let ?h2 = "h\<lparr>cells := (cells h)(a := s\<lparr>Name := n\<rparr>)\<rparr>"
  show ?case
  proof (cases "n \<in> set use")
    case False
    have "rangeSources E ci use a (entry # rest) (h, acc) = rangeSources E ci use a rest (?h1, acc)"
      using False by (simp add: entry Contains_set)
    also have "\<dots> = (?h1\<lparr>cells := (cells ?h1)(a := range_variable_after use rest (cells ?h1 a))\<rparr>,
      acc @ map (built_scraper E ci a ?h1) (filter (\<lambda>entry. fst entry \<in> set use) rest))"
      by (rule Cons.IH)
    also have "\<dots> = (h\<lparr>cells := (cells h)(a := range_variable_after use (entry # rest) (cells h a))\<rparr>,
      acc @ map (built_scraper E ci a h) (filter (\<lambda>entry. fst entry \<in> set use) (entry # rest)))"
      using False by (simp add: entry built_scraper_overwrites)
    finally show ?thesis .
  next
    case True
    have "rangeSources E ci use a (entry # rest) (h, acc) =
        rangeSources E ci use a rest (?h2, acc @ [built_scraper E ci a h (n, s)])"
      using True by (simp add: entry Contains_set built_scraper_def Let_def)
    also have "\<dots> = (?h2\<lparr>cells := (cells ?h2)(a := range_variable_after use rest (cells ?h2 a))\<rparr>,
      (acc @ [built_scraper E ci a h (n, s)]) @
        map (built_scraper E ci a ?h2) (filter (\<lambda>entry. fst entry \<in> set use) rest))"
      by (rule Cons.IH)
    also have "\<dots> = (h\<lparr>cells := (cells h)(a := range_variable_after use (entry # rest) (cells h a))\<rparr>,
      acc @ map (built_scraper E ci a h) (filter (\<lambda>entry. fst entry \<in> set use) (entry # rest)))"
      using True by (simp add: entry built_scraper_overwrites)
    finally show ?thesis .
  qed
qed

lemma ParseConfig_rejected:
  "toml_Unmarshal E bs = SyntaxError e \<Longrightarrow> ParseConfig E h bs = ((None, Some e), h)"
  "toml_Unmarshal E bs = DecodeError e \<Longrightarrow> ParseConfig E h bs = ((None, Some e), h)"
  by (simp_all add: ParseConfig_def)

lemma ParseConfig_disabled:
  assumes "toml_Unmarshal E bs = Decoded t"
    and "\<not> tempConfig_Anilist.Enabled (tempConfig.Anilist t)"
  shows "ParseConfig E h bs = ((Some \<lparr>
     Scrapers = map (built_scraper E (tempConfig.CacheImages t) (fresh h)
                  (h\<lparr>fresh := Suc (fresh h)\<rparr>))
       (filter (\<lambda>section. fst section \<in> set (Use t)) (Sources t)),
     Config.Format = (if tempConfig.Format t = [] then ''pdf'' else tempConfig.Format t),
     Config.UI = (if UI.ChapterNameTemplate (tempConfig.UI t) = []
       then (tempConfig.UI t)\<lparr>UI.ChapterNameTemplate := ''[%d] %s''\<rparr> else tempConfig.UI t),
     Config.Anilist = \<lparr>Client = None, Config_Anilist.Enabled = False,
       Config_Anilist.MarkDownloaded = False\<rparr>,
     Config.UseCustomReader = tempConfig.UseCustomReader t,
     Config.CustomReader = tempConfig.CustomReader t,
     Config.Path = tempConfig.Path t,
     Config.CacheImages = tempConfig.CacheImages t,
     Config.ChapterNameTemplate = (if tempConfig.ChapterNameTemplate t = []
       then ''[%0d] %s'' else tempConfig.ChapterNameTemplate t)\<rparr>, None), store_after h t)"
  using assms
  by (simp add: ParseConfig_def Let_def rangeSources_eq zeroConfig_def IfElse_def PDF_def
      store_after_def)

lemma ParseConfig_enabled:
  assumes "toml_Unmarshal E bs = Decoded t"
    and "tempConfig_Anilist.Enabled (tempConfig.Anilist t)"
    and "NewAnilistClient E (tempConfig_Anilist.ID (tempConfig.Anilist t))
           (tempConfig_Anilist.Secret (tempConfig.Anilist t)) = (client, err)"
  shows "ParseConfig E h bs = (case err of Some e \<Rightarrow> ((None, Some e), store_after h t)
     | None \<Rightarrow> ((Some \<lparr>
     Scrapers = map (built_scraper E (tempConfig.CacheImages t) (fresh h)
                  (h\<lparr>fresh := Suc (fresh h)\<rparr>))
       (filter (\<lambda>section. fst section \<in> set (Use t)) (Sources t)),
     Config.Format = (if tempConfig.Format t = [] then ''pdf'' else tempConfig.Format t),
     Config.UI = (if UI.ChapterNameTemplate (tempConfig.UI t) = []
       then (tempConfig.UI t)\<lparr>UI.ChapterNameTemplate := ''[%d] %s''\<rparr> else tempConfig.UI t),
     Config.Anilist = \<lparr>Client = client, Config_Anilist.Enabled = True,
       Config_Anilist.MarkDownloaded = tempConfig_Anilist.MarkDownloaded (tempConfig.Anilist t)\<rparr>,
     Config.UseCustomReader = tempConfig.UseCustomReader t,
     Config.CustomReader = tempConfig.CustomReader t,
     Config.Path = tempConfig.Path t,
     Config.CacheImages = tempConfig.CacheImages t,
     Config.ChapterNameTemplate = (if tempConfig.ChapterNameTemplate t = []
       then ''[%0d] %s'' else tempConfig.ChapterNameTemplate t)\<rparr>, None), store_after h t))"
  using assms
  by (simp add: ParseConfig_def Let_def rangeSources_eq zeroConfig_def IfElse_def PDF_def
      store_after_def split: option.splits)

lemma ParseConfig_fields:
  assumes "toml_Unmarshal E bs = Decoded t" and "ParseConfig E h bs = ((Some c, err), h')"
  shows "Scrapers c = map (built_scraper E (tempConfig.CacheImages t) (fresh h)
                  (h\<lparr>fresh := Suc (fresh h)\<rparr>))
           (filter (\<lambda>section. fst section \<in> set (Use t)) (Sources t))"
    and "Config.CacheImages c = tempConfig.CacheImages t"
    and "Config.Format c = (if tempConfig.Format t = [] then ''pdf'' else tempConfig.Format t)"
    and "Config.UI c = (if UI.ChapterNameTemplate (tempConfig.UI t) = []
           then (tempConfig.UI t)\<lparr>UI.ChapterNameTemplate := ''[%d] %s''\<rparr> else tempConfig.UI t)"
    and "Config.ChapterNameTemplate c = (if tempConfig.ChapterNameTemplate t = []
           then ''[%0d] %s'' else tempConfig.ChapterNameTemplate t)"
    and "Config.Path c = tempConfig.Path t"
    and "Config.UseCustomReader c = tempConfig.UseCustomReader t"
    and "Config.CustomReader c = tempConfig.CustomReader t"
    and "err = None"
    and "h' = store_after h t"
    and "Config.Anilist c =
          (if tempConfig_Anilist.Enabled (tempConfig.Anilist t)
           then \<lparr>Client = fst (NewAnilistClient E (tempConfig_Anilist.ID (tempConfig.Anilist t))
                    (tempConfig_Anilist.Secret (tempConfig.Anilist t))),
                 Config_Anilist.Enabled = True,
                 Config_Anilist.MarkDownloaded =
                   tempConfig_Anilist.MarkDownloaded (tempConfig.Anilist t)\<rparr>
           else \<lparr>Client = None, Config_Anilist.Enabled = False,
                 Config_Anilist.MarkDownloaded = False\<rparr>)"
proof -
  obtain client e where nac: "NewAnilistClient E (tempConfig_Anilist.ID (tempConfig.Anilist t))
           (tempConfig_Anilist.Secret (tempConfig.Anilist t)) = (client, e)"
    by (cases "NewAnilistClient E (tempConfig_Anilist.ID (tempConfig.Anilist t))
           (tempConfig_Anilist.Secret (tempConfig.Anilist t))") simp
  show "Scrapers c = map (built_scraper E (tempConfig.CacheImages t) (fresh h)
                  (h\<lparr>fresh := Suc (fresh h)\<rparr>))
           (filter (\<lambda>section. fst section \<in> set (Use t)) (Sources t))"
    and "Config.CacheImages c = tempConfig.CacheImages t"
    and "Config.Format c = (if tempConfig.Format t = [] then ''pdf'' else tempConfig.Format t)"
    and "Config.UI c = (if UI.ChapterNameTemplate (tempConfig.UI t) = []
           then (tempConfig.UI t)\<lparr>UI.ChapterNameTemplate := ''[%d] %s''\<rparr> else tempConfig.UI t)"
    and "Config.ChapterNameTemplate c = (if tempConfig.ChapterNameTemplate t = []
           then ''[%0d] %s'' else tempConfig.ChapterNameTemplate t)"
    and "Config.Path c = tempConfig.Path t"
    and "Config.UseCustomReader c = tempConfig.UseCustomReader t"
    and "Config.CustomReader c = tempConfig.CustomReader t"
    and "err = None"
    and "h' = store_after h t"
    and "Config.Anilist c =
          (if tempConfig_Anilist.Enabled (tempConfig.Anilist t)
           then \<lparr>Client = fst (NewAnilistClient E (tempConfig_Anilist.ID (tempConfig.Anilist t))
                    (tempConfig_Anilist.Secret (tempConfig.Anilist t))),
                 Config_Anilist.Enabled = True,
                 Config_Anilist.MarkDownloaded =
                   tempConfig_Anilist.MarkDownloaded (tempConfig.Anilist t)\<rparr>
           else \<lparr>Client = None, Config_Anilist.Enabled = False,
                 Config_Anilist.MarkDownloaded = False\<rparr>)"
    using assms(2) ParseConfig_disabled [OF assms(1), of h] ParseConfig_enabled [OF assms(1) _ nac, of h]
      nac
    by (cases "tempConfig_Anilist.Enabled (tempConfig.Anilist t)"; cases e; auto)+
qed

lemma ParseConfig_nil_error:
  "snd (fst (ParseConfig E h bs)) = None \<Longrightarrow> \<exists>c. fst (fst (ParseConfig E h bs)) = Some c"
proof (cases "toml_Unmarshal E bs")
  case (SyntaxError e)
  assume "snd (fst (ParseConfig E h bs)) = None"
  with ParseConfig_rejected(1) [OF SyntaxError, of h] show ?thesis by simp
next
  case (DecodeError e)
  assume "snd (fst (ParseConfig E h bs)) = None"
  with ParseConfig_rejected(2) [OF DecodeError, of h] show ?thesis by simp
next
  case (Decoded t)
  assume ok: "snd (fst (ParseConfig E h bs)) = None"
  obtain client e where nac: "NewAnilistClient E (tempConfig_Anilist.ID (tempConfig.Anilist t))
           (tempConfig_Anilist.Secret (tempConfig.Anilist t)) = (client, e)"
    by (cases "NewAnilistClient E (tempConfig_Anilist.ID (tempConfig.Anilist t))
           (tempConfig_Anilist.Secret (tempConfig.Anilist t))") simp
  show ?thesis
    using ok ParseConfig_disabled [OF Decoded, of h] ParseConfig_enabled [OF Decoded _ nac, of h]
    by (cases "tempConfig_Anilist.Enabled (tempConfig.Anilist t)"; cases e; auto)
qed

lemma DefaultConfigBytes_hd: "hd DefaultConfigBytes = CHR ''#''"
  by (simp add: DefaultConfigBytes_def)

lemma sample_texts_differ:
  "text_use_only \<noteq> DefaultConfigBytes" "text_b_a \<noteq> DefaultConfigBytes"
  "text_anilist \<noteq> DefaultConfigBytes" "text_format_number \<noteq> DefaultConfigBytes"
  "''use = ['' \<noteq> DefaultConfigBytes" "text_mark_downloaded \<noteq> DefaultConfigBytes"
proof -
  have "hd text_use_only \<noteq> CHR ''#''" "hd text_b_a \<noteq> CHR ''#''" "hd text_anilist \<noteq> CHR ''#''"
    "hd text_format_number \<noteq> CHR ''#''" "hd ''use = ['' \<noteq> CHR ''#''"
    "hd text_mark_downloaded \<noteq> CHR ''#''"
    by (simp_all add: text_use_only_def text_b_a_def text_anilist_def text_format_number_def
        text_mark_downloaded_def)
  then show "text_use_only \<noteq> DefaultConfigBytes" "text_b_a \<noteq> DefaultConfigBytes"
    "text_anilist \<noteq> DefaultConfigBytes" "text_format_number \<noteq> DefaultConfigBytes"
    "''use = ['' \<noteq> DefaultConfigBytes" "text_mark_downloaded \<noteq> DefaultConfigBytes"
    using DefaultConfigBytes_hd by metis+
qed

lemma sample_Unmarshal_values:
  "sample_Unmarshal DefaultConfigBytes = Decoded DefaultDocument"
  "sample_Unmarshal text_use_only = Decoded document_use_only"
  "sample_Unmarshal text_b_a = Decoded document_b_a"
  "sample_Unmarshal text_anilist = Decoded document_anilist"
  "sample_Unmarshal text_mark_downloaded = Decoded document_mark_downloaded"
  "sample_Unmarshal text_format_number = DecodeError (errors_New
     ''toml: cannot decode TOML integer into struct field main.tempConfig.Format of type string'')"
  "sample_Unmarshal ''use = ['' = SyntaxError (errors_New ''toml: invalid document'')"
proof -
  show "sample_Unmarshal DefaultConfigBytes = Decoded DefaultDocument"
    by (simp add: sample_Unmarshal_def)
  show "sample_Unmarshal text_use_only = Decoded document_use_only"
    by (simp add: sample_Unmarshal_def sample_texts_differ)
  have "text_b_a \<noteq> text_use_only" by (simp add: text_b_a_def text_use_only_def)
  then show "sample_Unmarshal text_b_a = Decoded document_b_a"
    by (simp add: sample_Unmarshal_def sample_texts_differ)
  have "text_anilist \<noteq> text_use_only" "text_anilist \<noteq> text_b_a"
    by (simp_all add: text_anilist_def text_b_a_def text_use_only_def)
  then show "sample_Unmarshal text_anilist = Decoded document_anilist"
    by (simp add: sample_Unmarshal_def sample_texts_differ)
  have "text_mark_downloaded \<noteq> text_use_only" "text_mark_downloaded \<noteq> text_b_a"
    "text_mark_downloaded \<noteq> text_anilist"
    by (simp_all add: text_mark_downloaded_def text_anilist_def text_b_a_def text_use_only_def)
  then show "sample_Unmarshal text_mark_downloaded = Decoded document_mark_downloaded"
    by (simp add: sample_Unmarshal_def sample_texts_differ)
  have "text_format_number \<noteq> text_use_only" "text_format_number \<noteq> text_b_a"
    "text_format_number \<noteq> text_anilist" "text_format_number \<noteq> text_mark_downloaded"
    by (simp_all add: text_format_number_def text_anilist_def text_b_a_def text_use_only_def
        text_mark_downloaded_def)
  then show "sample_Unmarshal text_format_number = DecodeError (errors_New
     ''toml: cannot decode TOML integer into struct field main.tempConfig.Format of type string'')"
    by (simp add: sample_Unmarshal_def sample_texts_differ)
  have "''use = ['' \<noteq> text_use_only" "''use = ['' \<noteq> text_b_a" "''use = ['' \<noteq> text_anilist"
    "''use = ['' \<noteq> text_format_number" "''use = ['' \<noteq> text_mark_downloaded"
    by (simp_all add: text_anilist_def text_b_a_def text_use_only_def text_format_number_def
        text_mark_downloaded_def)
  then show "sample_Unmarshal ''use = ['' = SyntaxError (errors_New ''toml: invalid document'')"
    by (simp add: sample_Unmarshal_def sample_texts_differ)
qed

lemma sample_env_fields:
  "toml_Unmarshal sample_env = sample_Unmarshal"
  "MakeSourceScraper sample_env = sample_MakeSourceScraper"
  "NewAnilistClient sample_env = sample_NewAnilistClient"
  "ValidateSource sample_env = (\<lambda>source. None)"
  "os_UserConfigDir sample_env = Inl (errors_New ''neither $XDG_CONFIG_HOME nor $HOME are defined'')"
  "Afero_Exists sample_env =
     (\<lambda>path. (path \<in> {''/good.toml'', ''/broken.toml'', ''/locked.toml''}, None))"
  "Afero_ReadFile sample_env = (\<lambda>path.
       if path = ''/good.toml'' then Inr text_use_only
       else if path = ''/broken.toml'' then Inr ''use = [''
       else Inl (errors_New ''permission denied''))"
  by (simp_all add: sample_env_def)

lemma sample_ParseConfig_values:
  "fst (ParseConfig sample_env h DefaultConfigBytes) = (Some \<lparr>
     Scrapers = [\<lparr>Source = Some (fresh h),
        FilesCollector = \<lparr>CacheDir = [], CollectorFields = ()\<rparr>, ScraperFields = ()\<rparr>],
     Config.Format = ''pdf'', Config.UI = tempConfig.UI DefaultDocument,
     Config.Anilist = \<lparr>Client = None, Config_Anilist.Enabled = False,
       Config_Anilist.MarkDownloaded = False\<rparr>,
     Config.UseCustomReader = False, Config.CustomReader = ''zathura'', Config.Path = ''.'',
     Config.CacheImages = False, Config.ChapterNameTemplate = ''[%0d] %s''\<rparr>, None)"
  "fst (ParseConfig sample_env h text_use_only) = (Some \<lparr>
     Scrapers = [], Config.Format = ''pdf'',
     Config.UI = zeroUI\<lparr>UI.ChapterNameTemplate := ''[%d] %s''\<rparr>,
     Config.Anilist = \<lparr>Client = None, Config_Anilist.Enabled = False,
       Config_Anilist.MarkDownloaded = False\<rparr>,
     Config.UseCustomReader = False, Config.CustomReader = [], Config.Path = [],
     Config.CacheImages = False, Config.ChapterNameTemplate = ''[%0d] %s''\<rparr>, None)"
  "fst (ParseConfig sample_env h text_b_a) = (Some \<lparr>
     Scrapers = [
       \<lparr>Source = Some (fresh h),
        FilesCollector = \<lparr>CacheDir = ''/cache/a'', CollectorFields = ()\<rparr>, ScraperFields = ()\<rparr>,
       \<lparr>Source = Some (fresh h),
        FilesCollector = \<lparr>CacheDir = ''/cache/b'', CollectorFields = ()\<rparr>, ScraperFields = ()\<rparr>],
     Config.Format = ''pdf'',
     Config.UI = zeroUI\<lparr>UI.ChapterNameTemplate := ''[%d] %s''\<rparr>,
     Config.Anilist = \<lparr>Client = None, Config_Anilist.Enabled = False,
       Config_Anilist.MarkDownloaded = False\<rparr>,
     Config.UseCustomReader = False, Config.CustomReader = [], Config.Path = [],
     Config.CacheImages = True, Config.ChapterNameTemplate = ''[%0d] %s''\<rparr>, None)"
  "snd (ParseConfig sample_env h text_b_a) = store_after h document_b_a"
  "fst (ParseConfig sample_env h text_anilist) =
     (None, Some (errors_New ''anilist: no client id''))"
  "ParseConfig sample_env h ''use = ['' =
     ((None, Some (errors_New ''toml: invalid document'')), h)"
  "ParseConfig sample_env h text_format_number = ((None, Some (errors_New
     ''toml: cannot decode TOML integer into struct field main.tempConfig.Format of type string'')),
     h)"
proof -
  have um: "toml_Unmarshal sample_env x = sample_Unmarshal x" for x
    by (simp add: sample_env_fields)
  show "fst (ParseConfig sample_env h DefaultConfigBytes) = (Some \<lparr>
     Scrapers = [\<lparr>Source = Some (fresh h),
        FilesCollector = \<lparr>CacheDir = [], CollectorFields = ()\<rparr>, ScraperFields = ()\<rparr>],
     Config.Format = ''pdf'', Config.UI = tempConfig.UI DefaultDocument,
     Config.Anilist = \<lparr>Client = None, Config_Anilist.Enabled = False,
       Config_Anilist.MarkDownloaded = False\<rparr>,
     Config.UseCustomReader = False, Config.CustomReader = ''zathura'', Config.Path = ''.'',
     Config.CacheImages = False, Config.ChapterNameTemplate = ''[%0d] %s''\<rparr>, None)"
    using ParseConfig_disabled [of sample_env DefaultConfigBytes DefaultDocument h]
    by (simp add: um sample_Unmarshal_values DefaultDocument_def built_scraper_def
        sample_env_fields sample_MakeSourceScraper_def)
  show "fst (ParseConfig sample_env h text_use_only) = (Some \<lparr>
     Scrapers = [], Config.Format = ''pdf'',
     Config.UI = zeroUI\<lparr>UI.ChapterNameTemplate := ''[%d] %s''\<rparr>,
     Config.Anilist = \<lparr>Client = None, Config_Anilist.Enabled = False,
       Config_Anilist.MarkDownloaded = False\<rparr>,
     Config.UseCustomReader = False, Config.CustomReader = [], Config.Path = [],
     Config.CacheImages = False, Config.ChapterNameTemplate = ''[%0d] %s''\<rparr>, None)"
    using ParseConfig_disabled [of sample_env text_use_only document_use_only h]
    by (simp add: um sample_Unmarshal_values document_use_only_def zeroTempConfig_def
        zeroUI_def)
  show "fst (ParseConfig sample_env h text_b_a) = (Some \<lparr>
     Scrapers = [
       \<lparr>Source = Some (fresh h),
        FilesCollector = \<lparr>CacheDir = ''/cache/a'', CollectorFields = ()\<rparr>, ScraperFields = ()\<rparr>,
       \<lparr>Source = Some (fresh h),
        FilesCollector = \<lparr>CacheDir = ''/cache/b'', CollectorFields = ()\<rparr>, ScraperFields = ()\<rparr>],
     Config.Format = ''pdf'',
     Config.UI = zeroUI\<lparr>UI.ChapterNameTemplate := ''[%d] %s''\<rparr>,
     Config.Anilist = \<lparr>Client = None, Config_Anilist.Enabled = False,
       Config_Anilist.MarkDownloaded = False\<rparr>,
     Config.UseCustomReader = False, Config.CustomReader = [], Config.Path = [],
     Config.CacheImages = True, Config.ChapterNameTemplate = ''[%0d] %s''\<rparr>, None)"
    and "snd (ParseConfig sample_env h text_b_a) = store_after h document_b_a"
    using ParseConfig_disabled [of sample_env text_b_a document_b_a h]
    by (simp_all add: um sample_Unmarshal_values document_b_a_def zeroTempConfig_def
        zeroUI_def built_scraper_def sample_env_fields sample_MakeSourceScraper_def)
  show "fst (ParseConfig sample_env h text_anilist) =
     (None, Some (errors_New ''anilist: no client id''))"
    using ParseConfig_enabled [of sample_env text_anilist document_anilist None
        "Some (errors_New ''anilist: no client id'')" h]
    by (simp add: um sample_Unmarshal_values document_anilist_def zeroTempConfig_def
        sample_env_fields sample_NewAnilistClient_def)
  show "ParseConfig sample_env h ''use = ['' =
     ((None, Some (errors_New ''toml: invalid document'')), h)"
    by (simp add: ParseConfig_rejected um sample_Unmarshal_values)
  show "ParseConfig sample_env h text_format_number = ((None, Some (errors_New
     ''toml: cannot decode TOML integer into struct field main.tempConfig.Format of type string'')),
     h)"
    by (simp add: ParseConfig_rejected um sample_Unmarshal_values)
qed

section \<open>When ParseConfig fails\<close>

text \<open>
  Claim C6, as stated, at the text \<open>format = 5\<close>: the text is well-formed (the decoder's
  verdict is not a syntax error) and the Anilist flag plays no part, and \<open>ParseConfig\<close>
  returns the decoder's error all the same.
\<close>

theorem ParseConfig_decode_error_counterexample:
  "toml_Unmarshal sample_env text_format_number = DecodeError (errors_New
     ''toml: cannot decode TOML integer into struct field main.tempConfig.Format of type string'') \<and>
   fst (ParseConfig sample_env empty_store text_format_number) = (None, Some (errors_New
     ''toml: cannot decode TOML integer into struct field main.tempConfig.Format of type string''))"
  by (simp add: sample_ParseConfig_values sample_env_fields sample_Unmarshal_values)

text \<open>
  Claim C6, amended. \<open>ParseConfig\<close> returns an error exactly when \<open>toml.Unmarshal\<close> returns
  one, which it does for text that is not well-formed and also for well-formed text with a
  value that does not fit its field, or when the document has the Anilist flag set and the
  construction of the client returns an error. Whenever the error is nil the returned
  configuration is not nil. For a document with the flag off, \<open>ParseConfig\<close> succeeds, the
  Anilist part of the configuration is at rest (no client, flag off, nothing marked), and
  the result is the same whatever the client constructor is: it is not called.
\<close>

theorem ParseConfig_error_iff:
  "(snd (fst (ParseConfig E h bs)) \<noteq> None \<longleftrightarrow>
      (\<exists>e. toml_Unmarshal E bs = SyntaxError e) \<or>
      (\<exists>e. toml_Unmarshal E bs = DecodeError e) \<or>
      (\<exists>t. toml_Unmarshal E bs = Decoded t \<and> tempConfig_Anilist.Enabled (tempConfig.Anilist t) \<and>
           snd (NewAnilistClient E (tempConfig_Anilist.ID (tempConfig.Anilist t))
                  (tempConfig_Anilist.Secret (tempConfig.Anilist t))) \<noteq> None)) \<and>
   (snd (fst (ParseConfig E h bs)) = None \<longrightarrow> fst (fst (ParseConfig E h bs)) \<noteq> None) \<and>
   (\<forall>t. toml_Unmarshal E bs = Decoded t \<and> \<not> tempConfig_Anilist.Enabled (tempConfig.Anilist t) \<longrightarrow>
      (\<exists>c. fst (ParseConfig E h bs) = (Some c, None) \<and>
           Config.Anilist c = \<lparr>Client = None, Config_Anilist.Enabled = False,
             Config_Anilist.MarkDownloaded = False\<rparr>) \<and>
      (\<forall>construct. ParseConfig (E\<lparr>NewAnilistClient := construct\<rparr>) h bs = ParseConfig E h bs))"
proof (cases "toml_Unmarshal E bs")
  case (SyntaxError e)
  with ParseConfig_rejected(1) [OF SyntaxError, of h] show ?thesis by simp
next
  case (DecodeError e)
  with ParseConfig_rejected(2) [OF DecodeError, of h] show ?thesis by simp
next
  case (Decoded t)
  obtain client e where nac: "NewAnilistClient E (tempConfig_Anilist.ID (tempConfig.Anilist t))
           (tempConfig_Anilist.Secret (tempConfig.Anilist t)) = (client, e)"
    by (cases "NewAnilistClient E (tempConfig_Anilist.ID (tempConfig.Anilist t))
           (tempConfig_Anilist.Secret (tempConfig.Anilist t))") simp
  show ?thesis
  proof (cases "tempConfig_Anilist.Enabled (tempConfig.Anilist t)")
    case True
    with Decoded nac ParseConfig_enabled [OF Decoded True nac, of h] show ?thesis
      by (cases e) simp_all
  next
    case False
    have other: "ParseConfig (E\<lparr>NewAnilistClient := construct\<rparr>) h bs = ParseConfig E h bs"
      for construct
      using ParseConfig_disabled [of "E\<lparr>NewAnilistClient := construct\<rparr>" bs t h]
        ParseConfig_disabled [OF Decoded False, of h] Decoded False
      by (simp add: built_scraper_def)
    from Decoded False ParseConfig_disabled [OF Decoded False, of h] other show ?thesis by simp
  qed
qed

theorem ParseConfig_error_iff_witness:
  "snd (fst (ParseConfig sample_env empty_store text_anilist)) \<noteq> None \<and>
   snd (fst (ParseConfig sample_env empty_store ''use = ['')) \<noteq> None \<and>
   snd (fst (ParseConfig sample_env empty_store text_format_number)) \<noteq> None \<and>
   snd (fst (ParseConfig sample_env empty_store text_use_only)) = None \<and>
   fst (fst (ParseConfig sample_env empty_store text_use_only)) \<noteq> None \<and>
   ParseConfig (sample_env\<lparr>NewAnilistClient := (\<lambda>ident secret. (None, None))\<rparr>) empty_store
     text_use_only = ParseConfig sample_env empty_store text_use_only"
proof -
  have off: "toml_Unmarshal sample_env text_use_only = Decoded document_use_only \<and>
      \<not> tempConfig_Anilist.Enabled (tempConfig.Anilist document_use_only)"
    by (simp add: sample_env_fields sample_Unmarshal_values document_use_only_def
        zeroTempConfig_def)
  have on: "toml_Unmarshal sample_env text_anilist = Decoded document_anilist \<and>
      tempConfig_Anilist.Enabled (tempConfig.Anilist document_anilist) \<and>
      snd (NewAnilistClient sample_env (tempConfig_Anilist.ID (tempConfig.Anilist document_anilist))
                  (tempConfig_Anilist.Secret (tempConfig.Anilist document_anilist))) \<noteq> None"
    by (simp add: sample_env_fields sample_Unmarshal_values document_anilist_def
        zeroTempConfig_def sample_NewAnilistClient_def)
  have broken: "toml_Unmarshal sample_env ''use = ['' =
      SyntaxError (errors_New ''toml: invalid document'')"
    by (simp add: sample_env_fields sample_Unmarshal_values)
  have misfit: "\<exists>e. toml_Unmarshal sample_env text_format_number = DecodeError e"
    by (simp add: sample_env_fields sample_Unmarshal_values)
  from ParseConfig_error_iff [of sample_env empty_store text_anilist] on
  have 1: "snd (fst (ParseConfig sample_env empty_store text_anilist)) \<noteq> None" by blast
  from ParseConfig_error_iff [of sample_env empty_store "''use = [''"] broken
  have 2: "snd (fst (ParseConfig sample_env empty_store ''use = ['')) \<noteq> None" by blast
  from ParseConfig_error_iff [of sample_env empty_store text_format_number] misfit
  have 3: "snd (fst (ParseConfig sample_env empty_store text_format_number)) \<noteq> None" by blast
  from ParseConfig_error_iff [of sample_env empty_store text_use_only] off
  have 4: "\<exists>c. fst (ParseConfig sample_env empty_store text_use_only) = (Some c, None)"
    and 5: "ParseConfig (sample_env\<lparr>NewAnilistClient := (\<lambda>ident secret. (None, None))\<rparr>)
       empty_store text_use_only = ParseConfig sample_env empty_store text_use_only"
    by blast+
  from 1 2 3 4 5 show ?thesis by auto
qed

section \<open>Defaults during assembly\<close>

text \<open>
  Claim C2, as stated, at the document that only lists \<open>use\<close>: its download path, custom
  reader and UI prompt are at their zero value and stay empty in the assembled
  configuration, while the Default Document has \<open>.\<close>, \<open>zathura\<close> and \<open>>\<close> there.
\<close>

theorem assembly_defaults_counterexample:
  "fst (ParseConfig sample_env empty_store text_use_only) = (Some \<lparr>
     Scrapers = [], Config.Format = ''pdf'',
     Config.UI = \<lparr>Fullscreen = False, Prompt = [], Title = [], Placeholder = [], Mark = [],
       UI.ChapterNameTemplate = ''[%d] %s''\<rparr>,
     Config.Anilist = \<lparr>Client = None, Config_Anilist.Enabled = False,
       Config_Anilist.MarkDownloaded = False\<rparr>,
     Config.UseCustomReader = False, Config.CustomReader = [], Config.Path = [],
     Config.CacheImages = False, Config.ChapterNameTemplate = ''[%0d] %s''\<rparr>, None) \<and>
   tempConfig.Path document_use_only = [] \<and>
   tempConfig.CustomReader document_use_only = [] \<and>
   Prompt (tempConfig.UI document_use_only) = [] \<and>
   tempConfig.Path DefaultDocument = ''.'' \<and>
   tempConfig.CustomReader DefaultDocument = ''zathura'' \<and>
   Prompt (tempConfig.UI DefaultDocument) = ''>''"
  by (simp add: sample_ParseConfig_values document_use_only_def zeroTempConfig_def
      DefaultDocument_def zeroUI_def)

text \<open>
  Claim C2, amended. Assembly replaces exactly three fields, each when it is empty, by the
  value of the Default Document: the output format (\<open>pdf\<close>), the UI chapter-name template
  (\<open>[%d] %s\<close>) and the global chapter-name template (\<open>[%0d] %s\<close>). The image-cache flag is
  taken as it is. The download path, the custom reader and its switch, and the fullscreen
  flag, prompt, title, placeholder and mark of the UI are copied as they are and get no
  default. An empty \<open>use\<close> list gives no scrapers. The Anilist part gets no default
  either: with the flag off it stays at its zero value, whatever the document says about
  marking downloads; with the flag on it holds the constructed client, the flag, and the
  document's choice about marking downloads.
\<close>

theorem assembly_defaults:
  assumes "toml_Unmarshal E bs = Decoded t" and "ParseConfig E h bs = ((Some c, err), h')"
  shows "Config.Format c =
           (if tempConfig.Format t = [] then tempConfig.Format DefaultDocument
            else tempConfig.Format t) \<and>
         UI.ChapterNameTemplate (Config.UI c) =
           (if UI.ChapterNameTemplate (tempConfig.UI t) = []
            then UI.ChapterNameTemplate (tempConfig.UI DefaultDocument)
            else UI.ChapterNameTemplate (tempConfig.UI t)) \<and>
         Config.ChapterNameTemplate c =
           (if tempConfig.ChapterNameTemplate t = []
            then tempConfig.ChapterNameTemplate DefaultDocument
            else tempConfig.ChapterNameTemplate t) \<and>
         tempConfig.Format DefaultDocument = ''pdf'' \<and>
         UI.ChapterNameTemplate (tempConfig.UI DefaultDocument) = ''[%d] %s'' \<and>
         tempConfig.ChapterNameTemplate DefaultDocument = ''[%0d] %s'' \<and>
         Config.CacheImages c = tempConfig.CacheImages t \<and>
         Config.Path c = tempConfig.Path t \<and>
         Config.UseCustomReader c = tempConfig.UseCustomReader t \<and>
         Config.CustomReader c = tempConfig.CustomReader t \<and>
         Fullscreen (Config.UI c) = Fullscreen (tempConfig.UI t) \<and>
         Prompt (Config.UI c) = Prompt (tempConfig.UI t) \<and>
         Title (Config.UI c) = Title (tempConfig.UI t) \<and>
         Placeholder (Config.UI c) = Placeholder (tempConfig.UI t) \<and>
         Mark (Config.UI c) = Mark (tempConfig.UI t) \<and>
         (Use t = [] \<longrightarrow> Scrapers c = []) \<and>
         Config.Anilist c =
           (if tempConfig_Anilist.Enabled (tempConfig.Anilist t)
            then \<lparr>Client = fst (NewAnilistClient E (tempConfig_Anilist.ID (tempConfig.Anilist t))
                     (tempConfig_Anilist.Secret (tempConfig.Anilist t))),
                  Config_Anilist.Enabled = True,
                  Config_Anilist.MarkDownloaded =
                    tempConfig_Anilist.MarkDownloaded (tempConfig.Anilist t)\<rparr>
            else \<lparr>Client = None, Config_Anilist.Enabled = False,
                  Config_Anilist.MarkDownloaded = False\<rparr>)"
  using ParseConfig_fields(1-8) [OF assms] ParseConfig_fields(11) [OF assms]
  by (simp add: DefaultDocument_def)

theorem assembly_defaults_witness:
  "(\<exists>c. fst (fst (ParseConfig sample_env empty_store text_use_only)) = Some c \<and>
     Config.Format c = ''pdf'' \<and> UI.ChapterNameTemplate (Config.UI c) = ''[%d] %s'' \<and>
     Config.ChapterNameTemplate c = ''[%0d] %s'' \<and> Config.Path c = [] \<and>
     Config.CustomReader c = [] \<and> Prompt (Config.UI c) = []) \<and>
   (\<exists>c. fst (fst (ParseConfig sample_env empty_store text_mark_downloaded)) = Some c \<and>
     tempConfig_Anilist.MarkDownloaded (tempConfig.Anilist document_mark_downloaded) \<and>
     \<not> Config_Anilist.MarkDownloaded (Config.Anilist c) \<and> Scrapers c = [])"
proof -
  have um: "toml_Unmarshal sample_env text_use_only = Decoded document_use_only"
    "toml_Unmarshal sample_env text_mark_downloaded = Decoded document_mark_downloaded"
    by (simp_all add: sample_env_fields sample_Unmarshal_values)
  obtain c h' where c: "ParseConfig sample_env empty_store text_use_only = ((Some c, None), h')"
    using ParseConfig_disabled [OF um(1), of empty_store]
    by (simp add: document_use_only_def zeroTempConfig_def)
  obtain d h'' where d:
    "ParseConfig sample_env empty_store text_mark_downloaded = ((Some d, None), h'')"
    using ParseConfig_disabled [OF um(2), of empty_store]
    by (simp add: document_mark_downloaded_def zeroTempConfig_def)
  from assembly_defaults [OF um(1) c] c
  have 1: "\<exists>c. fst (fst (ParseConfig sample_env empty_store text_use_only)) = Some c \<and>
     Config.Format c = ''pdf'' \<and> UI.ChapterNameTemplate (Config.UI c) = ''[%d] %s'' \<and>
     Config.ChapterNameTemplate c = ''[%0d] %s'' \<and> Config.Path c = [] \<and>
     Config.CustomReader c = [] \<and> Prompt (Config.UI c) = []"
    by (simp add: document_use_only_def zeroTempConfig_def zeroUI_def)
  from assembly_defaults [OF um(2) d] d
  have 2: "\<exists>c. fst (fst (ParseConfig sample_env empty_store text_mark_downloaded)) = Some c \<and>
     tempConfig_Anilist.MarkDownloaded (tempConfig.Anilist document_mark_downloaded) \<and>
     \<not> Config_Anilist.MarkDownloaded (Config.Anilist c) \<and> Scrapers c = []"
    by (simp add: document_mark_downloaded_def zeroTempConfig_def)
  from 1 2 show ?thesis by simp
qed

section \<open>The resolved sources\<close>

text \<open>
  Claim C3, as stated, at \<open>use = ['b', 'a']\<close> with sections a, b and c, the loop visiting
  the sections in the order c, a, b: the specification's order of the enabled names is
  b, a, and the first scraper of the assembled configuration is the one built while the
  loop variable held section a (its cache directory says so), the second the one built
  for section b.
\<close>

theorem sources_follow_iteration_order_counterexample:
  "toml_Unmarshal sample_env text_b_a = Decoded document_b_a \<and>
   Use document_b_a = [''b'', ''a''] \<and>
   map fst (Sources document_b_a) = [''c'', ''a'', ''b''] \<and>
   spec_resolved_names document_b_a = [''b'', ''a''] \<and>
   fst (ParseConfig sample_env empty_store text_b_a) = (Some \<lparr>
     Scrapers = [
       \<lparr>Source = Some 0,
        FilesCollector = \<lparr>CacheDir = ''/cache/a'', CollectorFields = ()\<rparr>, ScraperFields = ()\<rparr>,
       \<lparr>Source = Some 0,
        FilesCollector = \<lparr>CacheDir = ''/cache/b'', CollectorFields = ()\<rparr>, ScraperFields = ()\<rparr>],
     Config.Format = ''pdf'',
     Config.UI = \<lparr>Fullscreen = False, Prompt = [], Title = [], Placeholder = [], Mark = [],
       UI.ChapterNameTemplate = ''[%d] %s''\<rparr>,
     Config.Anilist = \<lparr>Client = None, Config_Anilist.Enabled = False,
       Config_Anilist.MarkDownloaded = False\<rparr>,
     Config.UseCustomReader = False, Config.CustomReader = [], Config.Path = [],
     Config.CacheImages = True, Config.ChapterNameTemplate = ''[%0d] %s''\<rparr>, None)"
  by (simp add: sample_ParseConfig_values sample_env_fields sample_Unmarshal_values
      document_b_a_def zeroTempConfig_def spec_resolved_names_def zeroUI_def empty_store_def)

text \<open>
  Claim C3, amended. The resolved scraper sequence holds, for each section whose name is
  in the \<open>use\<close> list, the scraper built for that section, in the order in which the loop
  visits the map of sections; the \<open>use\<close> list decides only which sections are kept, not
  their order.
\<close>

theorem sources_follow_iteration_order:
  assumes "toml_Unmarshal E bs = Decoded t" and "ParseConfig E h bs = ((Some c, err), h')"
  shows "Scrapers c =
           map (built_scraper E (tempConfig.CacheImages t) (fresh h) (h\<lparr>fresh := Suc (fresh h)\<rparr>))
             (filter (\<lambda>section. fst section \<in> set (Use t)) (Sources t))"
  by (rule ParseConfig_fields(1) [OF assms])

theorem sources_follow_iteration_order_witness:
  "\<exists>c. fst (fst (ParseConfig sample_env empty_store text_b_a)) = Some c \<and>
     map (\<lambda>scraper. CacheDir (FilesCollector scraper)) (Scrapers c) = [''/cache/a'', ''/cache/b'']"
proof -
  have um: "toml_Unmarshal sample_env text_b_a = Decoded document_b_a"
    by (simp add: sample_env_fields sample_Unmarshal_values)
  obtain c h' where c: "ParseConfig sample_env empty_store text_b_a = ((Some c, None), h')"
    using ParseConfig_disabled [OF um, of empty_store]
    by (simp add: document_b_a_def zeroTempConfig_def)
  from sources_follow_iteration_order [OF um c] c show ?thesis
    by (simp add: document_b_a_def zeroTempConfig_def built_scraper_def
        sample_env_fields sample_MakeSourceScraper_def)
qed

section \<open>One variable for all scrapers\<close>

text \<open>
  Every call of the constructor receives the address of the same variable. A constructor
  that keeps the pointer it is given therefore returns scrapers that all refer to one
  \<open>Source\<close>, the loop variable, which every later iteration overwrites.
\<close>

lemma scrapers_alias_range_variable:
  assumes "toml_Unmarshal E bs = Decoded t" and "ParseConfig E h bs = ((Some c, err), h')"
    and keeps: "\<And>pointer s. Source (MakeSourceScraper E pointer s) = Some pointer"
  shows "\<forall>scraper \<in> set (Scrapers c). Source scraper = Some (fresh h)"
  unfolding ParseConfig_fields(1) [OF assms(1,2)]
  by (auto simp: built_scraper_def Let_def keeps)

text \<open>
  The fields of the scraper itself are another matter: its pointer, its other fields and
  the other fields of its collector stay as the constructor returned them, and the cache
  directory is emptied exactly when images are not cached.
\<close>

lemma scraper_fields_kept:
  assumes "toml_Unmarshal E bs = Decoded t" and "ParseConfig E h bs = ((Some c, err), h')"
  shows "list_all2 (\<lambda>scraper section.
            let made = MakeSourceScraper E (fresh h)
                  (h\<lparr>fresh := Suc (fresh h),
                     cells := (cells h)(fresh h := (snd section)\<lparr>Name := fst section\<rparr>)\<rparr>)
            in Source scraper = Source made \<and>
               ScraperFields scraper = ScraperFields made \<and>
               CollectorFields (FilesCollector scraper) = CollectorFields (FilesCollector made) \<and>
               CacheDir (FilesCollector scraper) =
                 (if tempConfig.CacheImages t then CacheDir (FilesCollector made) else []))
           (Scrapers c) (filter (\<lambda>section. fst section \<in> set (Use t)) (Sources t))"
  unfolding ParseConfig_fields(1) [OF assms]
  by (simp add: list_all2_map1 list_all2_same built_scraper_def Let_def)

text \<open>
  Claim C9 says that no two adapters of the resolved sequence share a name. For
  \<open>use = ['b', 'a']\<close> with sections a, b and c, both scrapers hold the address of the loop
  variable, and after the loop that variable holds section b: both adapters are named b,
  and none is named a.
\<close>

theorem scrapers_share_one_source:
  "map_option (map Source \<circ> Scrapers) (fst (fst (ParseConfig sample_env empty_store text_b_a))) =
     Some [Some 0, Some 0] \<and>
   cells (snd (ParseConfig sample_env empty_store text_b_a)) 0 =
     \<lparr>Name = ''b'', Settings = [(''base'', StringValue ''https://b.example'')]\<rparr>"
  by (simp add: sample_ParseConfig_values store_after_def document_b_a_def zeroTempConfig_def
      empty_store_def)

text \<open>
  Claim C10 says that with the image-cache flag true every scraper is left exactly as the
  constructor returned it. For the same document, which caches images, the first scraper
  is what the constructor returned when the source it points to was section a; when
  \<open>ParseConfig\<close> is done, the source it points to is section b.
\<close>

theorem later_iteration_overwrites_source:
  "tempConfig.CacheImages document_b_a \<and>
   map_option (hd \<circ> Scrapers) (fst (fst (ParseConfig sample_env empty_store text_b_a))) =
     Some (MakeSourceScraper sample_env 0 store_building_a) \<and>
   Source (MakeSourceScraper sample_env 0 store_building_a) = Some 0 \<and>
   cells store_building_a 0 =
     \<lparr>Name = ''a'', Settings = [(''base'', StringValue ''https://a.example'')]\<rparr> \<and>
   cells (snd (ParseConfig sample_env empty_store text_b_a)) 0 =
     \<lparr>Name = ''b'', Settings = [(''base'', StringValue ''https://b.example'')]\<rparr>"
  by (simp add: sample_ParseConfig_values store_after_def document_b_a_def zeroTempConfig_def
      empty_store_def store_building_a_def sample_env_fields sample_MakeSourceScraper_def)

section \<open>Loading with fallback\<close>

lemma DefaultConfig_Some:
  assumes "toml_Unmarshal E DefaultConfigBytes = Decoded DefaultDocument"
  shows "\<exists>d. fst (DefaultConfig E h) = Some d"
  using ParseConfig_disabled [OF assms, of h]
  by (simp add: DefaultConfig_def DefaultDocument_def)

text \<open>
  Claim C1. Provided the decoder reads the embedded default text as the Default Document,
  \<open>GetConfig\<close> returns a configuration that is not nil for every path. It returns
  \<open>DefaultConfig\<close> when the path is empty and the default location cannot be found, when
  the existence test fails or says no, when the file cannot be read, and when
  \<open>ParseConfig\<close> returns an error. When every stage succeeds it returns the parsed
  configuration as it is: nothing is validated on the way.
\<close>

theorem GetConfig_total:
  assumes "toml_Unmarshal E DefaultConfigBytes = Decoded DefaultDocument"
  shows "(\<exists>c. fst (GetConfig E h path) = Some c) \<and>
         (path = [] \<and> (\<exists>e. GetConfigPath E = Inl e) \<longrightarrow>
            GetConfig E h path = DefaultConfig E h) \<and>
         (\<forall>configPath. (if path = [] then GetConfigPath E else Inr path) = Inr configPath \<longrightarrow>
            (snd (Afero_Exists E configPath) \<noteq> None \<or> \<not> fst (Afero_Exists E configPath) \<longrightarrow>
               GetConfig E h path = DefaultConfig E h) \<and>
            ((\<exists>e. Afero_ReadFile E configPath = Inl e) \<longrightarrow>
               GetConfig E h path = DefaultConfig E h) \<and>
            (\<forall>contents. Afero_ReadFile E configPath = Inr contents \<and>
               snd (fst (ParseConfig E h contents)) \<noteq> None \<longrightarrow>
               GetConfig E h path =
                 DefaultConfig E (if Afero_Exists E configPath = (True, None)
                                  then snd (ParseConfig E h contents) else h)) \<and>
            (\<forall>contents. Afero_Exists E configPath = (True, None) \<and>
               Afero_ReadFile E configPath = Inr contents \<and>
               snd (fst (ParseConfig E h contents)) = None \<longrightarrow>
               GetConfig E h path =
                 (fst (fst (ParseConfig E h contents)), snd (ParseConfig E h contents))))"
proof -
  have default: "\<exists>d. fst (DefaultConfig E s) = Some d" for s
    by (rule DefaultConfig_Some [OF assms])
  have parsed: "\<exists>c. config = Some c"
    if "ParseConfig E h contents = ((config, None), s)" for contents config s
    using ParseConfig_nil_error [of E h contents] that by simp
  have total: "\<exists>c. fst (GetConfig E h path) = Some c"
    using default parsed
    by (auto simp: GetConfig_def split: sum.splits prod.splits)
  have lookup: "path = [] \<and> (\<exists>e. GetConfigPath E = Inl e) \<longrightarrow>
      GetConfig E h path = DefaultConfig E h"
    by (auto simp: GetConfig_def)
  have chain: "(snd (Afero_Exists E configPath) \<noteq> None \<or> \<not> fst (Afero_Exists E configPath) \<longrightarrow>
               GetConfig E h path = DefaultConfig E h) \<and>
            ((\<exists>e. Afero_ReadFile E configPath = Inl e) \<longrightarrow>
               GetConfig E h path = DefaultConfig E h) \<and>
            (\<forall>contents. Afero_ReadFile E configPath = Inr contents \<and>
               snd (fst (ParseConfig E h contents)) \<noteq> None \<longrightarrow>
               GetConfig E h path =
                 DefaultConfig E (if Afero_Exists E configPath = (True, None)
                                  then snd (ParseConfig E h contents) else h)) \<and>
            (\<forall>contents. Afero_Exists E configPath = (True, None) \<and>
               Afero_ReadFile E configPath = Inr contents \<and>
               snd (fst (ParseConfig E h contents)) = None \<longrightarrow>
               GetConfig E h path =
                 (fst (fst (ParseConfig E h contents)), snd (ParseConfig E h contents)))"
    if "(if path = [] then GetConfigPath E else Inr path) = Inr configPath" for configPath
    using that
    by (cases "Afero_Exists E configPath")
      (auto simp: GetConfig_def split: sum.splits prod.splits)
  from total lookup chain show ?thesis by blast
qed

theorem GetConfig_total_witness:
  "GetConfig sample_env empty_store [] = DefaultConfig sample_env empty_store \<and>
   GetConfig sample_env empty_store ''/missing.toml'' = DefaultConfig sample_env empty_store \<and>
   GetConfig sample_env empty_store ''/locked.toml'' = DefaultConfig sample_env empty_store \<and>
   GetConfig sample_env empty_store ''/broken.toml'' = DefaultConfig sample_env empty_store \<and>
   fst (GetConfig sample_env empty_store ''/good.toml'') =
     fst (fst (ParseConfig sample_env empty_store text_use_only)) \<and>
   (\<exists>c. fst (GetConfig sample_env empty_store ''/good.toml'') = Some c \<and>
      ValidateConfig sample_env (snd (GetConfig sample_env empty_store ''/good.toml'')) c =
        Return (Some (errors_New ''no manga sources listed''))) \<and>
   (\<exists>d. fst (DefaultConfig sample_env empty_store) = Some d \<and>
      ValidateConfig sample_env (snd (DefaultConfig sample_env empty_store)) d = Return None)"
proof -
  have um: "toml_Unmarshal sample_env DefaultConfigBytes = Decoded DefaultDocument"
    by (simp add: sample_env_fields sample_Unmarshal_values)
  note t = GetConfig_total [OF um, of empty_store]
  have nopath: "GetConfigPath sample_env =
      Inl (errors_New ''neither $XDG_CONFIG_HOME nor $HOME are defined'')"
    by (simp add: GetConfigPath_def sample_env_fields)
  have 1: "GetConfig sample_env empty_store [] = DefaultConfig sample_env empty_store"
    using t [of "[]"] nopath by simp
  have 2: "GetConfig sample_env empty_store ''/missing.toml'' =
      DefaultConfig sample_env empty_store"
    using t [of "''/missing.toml''"] by (simp add: sample_env_fields)
  have 3: "GetConfig sample_env empty_store ''/locked.toml'' =
      DefaultConfig sample_env empty_store"
    using t [of "''/locked.toml''"] by (simp add: sample_env_fields)
  have 4: "GetConfig sample_env empty_store ''/broken.toml'' =
      DefaultConfig sample_env empty_store"
    using t [of "''/broken.toml''"]
    by (simp add: sample_env_fields sample_ParseConfig_values)
  have 5: "fst (GetConfig sample_env empty_store ''/good.toml'') =
      fst (fst (ParseConfig sample_env empty_store text_use_only))"
    using t [of "''/good.toml''"]
    by (simp add: sample_env_fields sample_ParseConfig_values)
  have 6: "\<exists>c. fst (GetConfig sample_env empty_store ''/good.toml'') = Some c \<and>
      ValidateConfig sample_env (snd (GetConfig sample_env empty_store ''/good.toml'')) c =
        Return (Some (errors_New ''no manga sources listed''))"
    unfolding 5 by (simp add: sample_ParseConfig_values ValidateConfig_def)
  have 7: "\<exists>d. fst (DefaultConfig sample_env empty_store) = Some d \<and>
      ValidateConfig sample_env (snd (DefaultConfig sample_env empty_store)) d = Return None"
    by (simp add: DefaultConfig_def split_beta sample_ParseConfig_values ValidateConfig_def
        DefaultDocument_def validateChapterNameTemplate_def checkAnilist_def
        Contains_AvailableFormats sample_env_fields)
  from 1 2 3 4 5 6 7 show ?thesis by blast
qed

end
